theory Spec2Isabelle
  imports Main
begin

section \<open>The Sphinx configuration file \<open>demoProject/ExpoAssistent/source/conf.py\<close>\<close>

text \<open>
  The file is a Python module that Sphinx executes once. Apart from two imports and one
  call that edits \<open>sys.path\<close>, every statement assigns a literal to a module-level name.
  The model below keeps the statements in the order of the source and runs them on an
  explicit interpreter state.
\<close>

subsection \<open>Python values\<close>

text \<open>
  The literals of the file are strings, booleans, lists and dictionaries. A dictionary
  keeps its items in the order of the literal. An imported module is represented by its name.
\<close>

datatype pyval =
    Str string
  | Bool bool
  | Lst "pyval list"
  | Dict "(string \<times> pyval) list"
  | Module string

definition is_str :: "pyval \<Rightarrow> bool" where
  "is_str v = (case v of Str s \<Rightarrow> True | _ \<Rightarrow> False)"

definition is_dict :: "pyval \<Rightarrow> bool" where
  "is_dict v = (case v of Dict kvs \<Rightarrow> True | _ \<Rightarrow> False)"

definition is_list :: "pyval \<Rightarrow> bool" where
  "is_list v = (case v of Lst xs \<Rightarrow> True | _ \<Rightarrow> False)"

text \<open>The elements of a list value (no elements for a value that is not a list).\<close>

definition elems :: "pyval \<Rightarrow> pyval list" where
  "elems v = (case v of Lst xs \<Rightarrow> xs | _ \<Rightarrow> [])"

text \<open>\<open>d.get(k)\<close>: the value stored under a key, \<open>None\<close> for a missing key or a non-dictionary.\<close>

definition dict_get :: "pyval \<Rightarrow> string \<Rightarrow> pyval option" where
  "dict_get v k = (case v of Dict kvs \<Rightarrow> map_of kvs k | _ \<Rightarrow> None)"

definition dict_keys :: "pyval \<Rightarrow> string list" where
  "dict_keys v = (case v of Dict kvs \<Rightarrow> map fst kvs | _ \<Rightarrow> [])"

subsection \<open>The literals of the file\<close>

definition project :: pyval where
  "project = Str ''Exploration Assistant''"

definition copyright :: pyval where
  "copyright = Str ''2025, Sam''"

definition author :: pyval where
  "author = Str ''Sam''"

definition release :: pyval where
  "release = Str ''0.1''"

definition extensions :: pyval where
  "extensions = Lst [Str ''sphinxcontrib.plantuml'', Str ''sphinx_needs'', Str ''sphinx.ext.autodoc'']"

definition templates_path :: pyval where
  "templates_path = Lst [Str ''_templates'']"

definition exclude_patterns :: pyval where
  "exclude_patterns = Lst []"

definition html_theme :: pyval where
  "html_theme = Str ''sphinx_rtd_theme''"

definition html_static_path :: pyval where
  "html_static_path = Lst [Str ''_static'']"

definition needs_types :: pyval where
  "needs_types = Lst [
     Dict [(''directive'', Str ''req''),
           (''title'', Str ''Requirement''),
           (''prefix'', Str ''R_''),
           (''color'', Str ''#BFD8D2''),
           (''style'', Str ''node'')],
     Dict [(''directive'', Str ''SR''),
           (''title'', Str ''Safety Requirement''),
           (''prefix'', Str ''SR_''),
           (''color'', Str ''#D19F3C''),
           (''style'', Str ''node'')],
     Dict [(''directive'', Str ''DFA''),
           (''title'', Str ''DFA Requirement''),
           (''prefix'', Str ''DFA_''),
           (''color'', Str ''#A73E89''),
           (''style'', Str ''node'')],
     Dict [(''directive'', Str ''arch''),
           (''title'', Str ''Architecture''),
           (''prefix'', Str ''A_''),
           (''style'', Str ''component''),
           (''color'', Str ''#BFD8D2'')]]"

definition need_extra_links :: pyval where
  "need_extra_links = Lst [
     Dict [(''option'', Str ''tutorial_required_by''),
           (''incoming'', Str ''requires''),
           (''outgoing'', Str ''required by''),
           (''style'', Str ''#00AA00'')]]"

definition needs_extra_options :: pyval where
  "needs_extra_options = Lst [
     Str ''image'',
     Dict [(''name'', Str ''asil''),
           (''description'', Str ''Safety Integrity Level''),
           (''values'', Lst [Str ''A'', Str ''B'', Str ''C'', Str ''D'',
                             Str ''A_D'', Str ''B_D'', Str ''C_D''])],
     Dict [(''name'', Str ''sreqtype''),
           (''description'', Str ''Safety Requirement or DFA Requirement''),
           (''values'', Lst [Str ''SR'', Str ''DFA''])]]"

definition needs_build_json :: pyval where
  "needs_build_json = Bool True"

subsection \<open>The interpreter state and the statements\<close>

text \<open>
  The state the file can touch: the module search path \<open>sys.path\<close> of the running
  interpreter and the namespace in which the file is executed (a dictionary from names to
  values, in insertion order). Any further state of the interpreter is the extension part
  of the record.
\<close>

record interp =
  sys_path :: "string list"
  globals :: "(string \<times> pyval) list"

text \<open>\<open>d[k] = v\<close>: an existing key keeps its place and gets the new value, a new key goes
  to the end.\<close>

fun setitem :: "string \<Rightarrow> pyval \<Rightarrow> (string \<times> pyval) list \<Rightarrow> (string \<times> pyval) list" where
  "setitem k v [] = [(k, v)]"
| "setitem k v ((k', v') # kvs) =
     (if k' = k then (k, v) # kvs else (k', v') # setitem k v kvs)"

text \<open>
  The file is not run on its own: the loader executes it with \<open>exec\<close> in a namespace it has
  prepared. Before the first statement runs, \<open>exec\<close> puts a reference to the built-ins under
  the key \<open>__builtins__\<close> when the namespace has no such key, and leaves a namespace that has
  one alone.
\<close>

definition seed_builtins :: "'a interp_scheme \<Rightarrow> 'a interp_scheme" where
  "seed_builtins s =
     (if map_of (globals s) ''__builtins__'' = None
      then s\<lparr>globals := setitem ''__builtins__'' (Module ''builtins'') (globals s)\<rparr>
      else s)"

text \<open>\<open>import m\<close> binds the name \<open>m\<close> to the module (both modules of the file are loaded
  long before Sphinx reads it, so nothing else changes).\<close>

definition import_module :: "string \<Rightarrow> 'a interp_scheme \<Rightarrow> 'a interp_scheme" where
  "import_module m s = s\<lparr>globals := setitem m (Module m) (globals s)\<rparr>"

text \<open>\<open>name = value\<close> at module level.\<close>

definition assign :: "string \<Rightarrow> pyval \<Rightarrow> 'a interp_scheme \<Rightarrow> 'a interp_scheme" where
  "assign name v s = s\<lparr>globals := setitem name v (globals s)\<rparr>"

text \<open>\<open>xs.insert(i, x)\<close> of Python for an index \<open>i \<ge> 0\<close>: an index beyond the end appends.\<close>

definition list_insert :: "nat \<Rightarrow> 'a \<Rightarrow> 'a list \<Rightarrow> 'a list" where
  "list_insert i x xs = take i xs @ x # drop i xs"

definition sys_path_insert :: "nat \<Rightarrow> string \<Rightarrow> 'a interp_scheme \<Rightarrow> 'a interp_scheme" where
  "sys_path_insert i p s = s\<lparr>sys_path := list_insert i p (sys_path s)\<rparr>"

text \<open>
  Executing the file: the preparation by \<open>exec\<close>, then the statements of the file in their
  order. \<open>os.path.abspath\<close> belongs to the Python
  library and depends on the working directory of the process; it is a parameter here.
\<close>

definition load :: "(string \<Rightarrow> string) \<Rightarrow> 'a interp_scheme \<Rightarrow> 'a interp_scheme" where
  "load abspath s0 =
     (let s = seed_builtins s0;
          s = import_module ''os'' s;
          s = import_module ''sys'' s;
          s = sys_path_insert 0 (abspath ''..'') s;
          s = assign ''project'' project s;
          s = assign ''copyright'' copyright s;
          s = assign ''author'' author s;
          s = assign ''release'' release s;
          s = assign ''extensions'' extensions s;
          s = assign ''templates_path'' templates_path s;
          s = assign ''exclude_patterns'' exclude_patterns s;
          s = assign ''html_theme'' html_theme s;
          s = assign ''html_static_path'' html_static_path s;
          s = assign ''needs_types'' needs_types s;
          s = assign ''need_extra_links'' need_extra_links s;
          s = assign ''needs_extra_options'' needs_extra_options s;
          s = assign ''needs_build_json'' needs_build_json s
      in s)"

text \<open>The names the file binds: the two imported modules and the configuration names.\<close>

definition config_names :: "string list" where
  "config_names = [''project'', ''copyright'', ''author'', ''release'', ''extensions'',
     ''templates_path'', ''exclude_patterns'', ''html_theme'', ''html_static_path'',
     ''needs_types'', ''need_extra_links'', ''needs_extra_options'', ''needs_build_json'']"



text \<open>
  A concrete interpreter for the examples: Sphinx runs in the directory \<open>source\<close> of the
  project, so \<open>os.path.abspath("..")\<close> is the project directory; the namespace is fresh.
\<close>

definition demo_abspath :: "string \<Rightarrow> string" where
  "demo_abspath p =
     (if p = ''..'' then ''/work/demoProject/ExpoAssistent''
      else ''/work/demoProject/ExpoAssistent/source/'' @ p)"

definition demo_interp :: interp where
  "demo_interp = \<lparr>sys_path = [''/usr/lib/python3.11''], globals = []\<rparr>"

subsection \<open>The shapes the plugin schema asks for\<close>

text \<open>A record is a dictionary that has a value under each of the given keys.\<close>

definition has_fields :: "string list \<Rightarrow> pyval \<Rightarrow> bool" where
  "has_fields ks r = (is_dict r \<and> list_all (\<lambda>k. dict_get r k \<noteq> None) ks)"

text \<open>The values that the entries of a list of records store under one key, entry by entry.\<close>

definition field_values :: "string \<Rightarrow> pyval \<Rightarrow> pyval option list" where
  "field_values k rs = map (\<lambda>r. dict_get r k) (elems rs)"

text \<open>The five fields of a need type.\<close>

definition type_fields :: "string list" where
  "type_fields = [''directive'', ''title'', ''prefix'', ''color'', ''style'']"

text \<open>
  The four fields of an extra link, by the keys the file uses: the option name, the label of
  incoming links under \<open>incoming\<close>, the label of outgoing links under \<open>outgoing\<close>, and the
  colour of the link under \<open>style\<close> (the source comments that entry as
  ``color for the link in diagrams'').
\<close>

definition link_fields :: "string list" where
  "link_fields = [''option'', ''incoming'', ''outgoing'', ''style'']"

definition link_color :: "pyval \<Rightarrow> pyval option" where
  "link_color r = dict_get r ''style''"

definition type_color :: "pyval \<Rightarrow> pyval option" where
  "type_color r = dict_get r ''color''"

text \<open>An extra option given as a record: a name, and at most a description and values.\<close>

definition option_keys :: "string list" where
  "option_keys = [''name'', ''description'', ''values'']"

definition is_option_record :: "pyval \<Rightarrow> bool" where
  "is_option_record e =
     (has_fields [''name''] e \<and> list_all (\<lambda>k. k \<in> set option_keys) (dict_keys e))"

text \<open>An enumeration: a list, not empty, with no element twice.\<close>

definition is_enumeration :: "pyval \<Rightarrow> bool" where
  "is_enumeration v = (is_list v \<and> elems v \<noteq> [] \<and> distinct (elems v))"

definition values_ok :: "pyval \<Rightarrow> bool" where
  "values_ok e = (case dict_get e ''values'' of None \<Rightarrow> True | Some v \<Rightarrow> is_enumeration v)"

text \<open>The enumeration of the option with a given name, when there is such an option and it
  has one.\<close>

definition option_values :: "string \<Rightarrow> pyval \<Rightarrow> pyval list option" where
  "option_values n opts =
     (case find (\<lambda>e. dict_get e ''name'' = Some (Str n)) (elems opts) of
        None \<Rightarrow> None
      | Some e \<Rightarrow> map_option elems (dict_get e ''values''))"

text \<open>The safety levels: one of four letters, alone or followed by \<open>_D\<close>.\<close>

definition asil_codes :: "string list" where
  "asil_codes = [''A'', ''B'', ''C'', ''D'']"

definition is_asil_value :: "pyval \<Rightarrow> bool" where
  "is_asil_value v =
     (case v of
        Str s \<Rightarrow> s \<in> set asil_codes \<or> s \<in> set (map (\<lambda>c. c @ ''_D'') asil_codes)
      | _ \<Rightarrow> False)"

definition nonempty_str :: "pyval \<Rightarrow> bool" where
  "nonempty_str v = (case v of Str s \<Rightarrow> s \<noteq> [] | _ \<Rightarrow> False)"

text \<open>A colour: \<open>#\<close> and six hexadecimal digits.\<close>

definition is_hex_digit :: "char \<Rightarrow> bool" where
  "is_hex_digit c = (c \<in> set ''0123456789abcdefABCDEF'')"

definition is_hex_color :: "pyval option \<Rightarrow> bool" where
  "is_hex_color v =
     (case v of
        Some (Str (c # ds)) \<Rightarrow> c = CHR ''#'' \<and> length ds = 6 \<and> list_all is_hex_digit ds
      | _ \<Rightarrow> False)"

definition ends_with_underscore :: "pyval option \<Rightarrow> bool" where
  "ends_with_underscore v =
     (case v of Some (Str s) \<Rightarrow> s \<noteq> [] \<and> last s = CHR ''_'' | _ \<Rightarrow> False)"

text \<open>The directive keywords of the need types that have one of the given titles.\<close>

definition directives_titled :: "string list \<Rightarrow> pyval \<Rightarrow> pyval option list" where
  "directives_titled ts types =
     map (\<lambda>r. dict_get r ''directive'')
       (filter (\<lambda>r. dict_get r ''title'' \<in> set (map (\<lambda>t. Some (Str t)) ts)) (elems types))"

section \<open>What loading the file does\<close>

lemma map_of_setitem: "map_of (setitem k v kvs) = (map_of kvs)(k \<mapsto> v)"
  by (induction kvs) (auto simp: fun_eq_iff)


lemma globals_load:
  "map_of (globals (load abspath s)) =
     (map_of (globals (seed_builtins s)))(''os'' \<mapsto> Module ''os'', ''sys'' \<mapsto> Module ''sys'',
       ''project'' \<mapsto> project, ''copyright'' \<mapsto> copyright, ''author'' \<mapsto> author,
       ''release'' \<mapsto> release, ''extensions'' \<mapsto> extensions,
       ''templates_path'' \<mapsto> templates_path, ''exclude_patterns'' \<mapsto> exclude_patterns,
       ''html_theme'' \<mapsto> html_theme, ''html_static_path'' \<mapsto> html_static_path,
       ''needs_types'' \<mapsto> needs_types, ''need_extra_links'' \<mapsto> need_extra_links,
       ''needs_extra_options'' \<mapsto> needs_extra_options,
       ''needs_build_json'' \<mapsto> needs_build_json)"
  by (simp add: load_def Let_def assign_def import_module_def sys_path_insert_def map_of_setitem)





lemma load_binds:
  shows "map_of (globals (load abspath s)) ''extensions'' = Some extensions"
    and "map_of (globals (load abspath s)) ''needs_types'' = Some needs_types"
    and "map_of (globals (load abspath s)) ''need_extra_links'' = Some need_extra_links"
    and "map_of (globals (load abspath s)) ''needs_extra_options'' = Some needs_extra_options"
  by (simp_all add: globals_load)

lemma load_config_names:
  "map (map_of (globals (load abspath s))) config_names =
     [Some project, Some copyright, Some author, Some release, Some extensions,
      Some templates_path, Some exclude_patterns, Some html_theme, Some html_static_path,
      Some needs_types, Some need_extra_links, Some needs_extra_options,
      Some needs_build_json]"
  by (simp add: globals_load config_names_def)

section \<open>The need types\<close>

text \<open>
  C1. After loading, \<open>needs_types\<close> is a list of records that each have the five fields
  directive, title, prefix, color and style; the directive keywords of the records are
  pairwise different, and so are their prefixes.
\<close>

theorem needs_types_records:
  "map_of (globals (load abspath s)) ''needs_types'' = Some needs_types \<and>
   is_list needs_types \<and>
   list_all (has_fields type_fields) (elems needs_types) \<and>
   distinct (field_values ''directive'' needs_types) \<and>
   distinct (field_values ''prefix'' needs_types)"
  by (simp add: load_binds needs_types_def is_list_def elems_def has_fields_def is_dict_def
      dict_get_def type_fields_def field_values_def)

section \<open>The extra links\<close>

text \<open>
  C2. After loading, \<open>need_extra_links\<close> is a list of records that each have the four fields
  of a link: the option name, the label for incoming links, the label for outgoing links
  and the colour (stored under the keys \<open>option\<close>, \<open>incoming\<close>, \<open>outgoing\<close> and \<open>style\<close>);
  no two records have the same option name.
\<close>

theorem need_extra_links_records:
  "map_of (globals (load abspath s)) ''need_extra_links'' = Some need_extra_links \<and>
   is_list need_extra_links \<and>
   list_all (has_fields link_fields) (elems need_extra_links) \<and>
   distinct (field_values ''option'' need_extra_links)"
  by (simp add: load_binds need_extra_links_def is_list_def elems_def has_fields_def is_dict_def
      dict_get_def link_fields_def field_values_def)

section \<open>The extra options\<close>

text \<open>
  C3, as stated: every entry of \<open>needs_extra_options\<close> is a record with a name. The first
  entry of the list is the plain string \<open>image\<close>: it is no record and has no name field.
\<close>

theorem needs_extra_options_first_entry_no_record:
  "elems needs_extra_options ! 0 = Str ''image'' \<and>
   \<not> is_option_record (elems needs_extra_options ! 0) \<and>
   dict_get (elems needs_extra_options ! 0) ''name'' = None"
  by (simp add: needs_extra_options_def elems_def is_option_record_def has_fields_def
      is_dict_def dict_get_def)

text \<open>
  C3, amended: every entry of \<open>needs_extra_options\<close> is either a plain string (the name of
  the option) or a record that has a name field and no field other than name, description
  and values.
\<close>

theorem needs_extra_options_entries:
  "map_of (globals (load abspath s)) ''needs_extra_options'' = Some needs_extra_options \<and>
   is_list needs_extra_options \<and>
   list_all (\<lambda>e. nonempty_str e \<or> is_option_record e) (elems needs_extra_options)"
  by (simp add: load_binds needs_extra_options_def is_list_def elems_def nonempty_str_def
      is_option_record_def has_fields_def is_dict_def dict_get_def dict_keys_def option_keys_def)

text \<open>
  C4. After loading, every entry of \<open>needs_extra_options\<close> that has a values field has there a list that is
  not empty and holds no element twice. Two entries have such a field.
\<close>

theorem needs_extra_options_enumerations:
  "map_of (globals (load abspath s)) ''needs_extra_options'' = Some needs_extra_options \<and>
   list_all values_ok (elems needs_extra_options) \<and>
   length (filter (\<lambda>e. dict_get e ''values'' \<noteq> None) (elems needs_extra_options)) = 2"
  by (simp add: load_binds needs_extra_options_def elems_def values_ok_def is_enumeration_def
      is_list_def dict_get_def)

text \<open>The entry for \<open>asil\<close> has a values field, and it is an enumeration.\<close>

theorem needs_extra_options_enumerations_witness:
  "dict_get (elems needs_extra_options ! 1) ''values'' \<noteq> None \<and>
   values_ok (elems needs_extra_options ! 1)"
  using needs_extra_options_enumerations [of demo_abspath demo_interp]
  by (simp add: needs_extra_options_def elems_def dict_get_def)

text \<open>
  C5. In the loaded \<open>needs_extra_options\<close>, the option \<open>asil\<close> has an enumeration, and each of its values is one of the four
  letters A, B, C, D, alone or followed by \<open>_D\<close>; the option \<open>sreqtype\<close> has an
  enumeration of exactly two different strings.
\<close>

theorem asil_and_sreqtype_values:
  "map_of (globals (load abspath s)) ''needs_extra_options'' = Some needs_extra_options \<and>
   length asil_codes = 4 \<and> distinct asil_codes \<and> list_all (\<lambda>c. length c = 1) asil_codes \<and>
   (\<exists>vs. option_values ''asil'' needs_extra_options = Some vs \<and> list_all is_asil_value vs) \<and>
   (\<exists>ws. option_values ''sreqtype'' needs_extra_options = Some ws \<and>
      length ws = 2 \<and> distinct ws \<and> list_all nonempty_str ws)"
  by (simp add: load_binds asil_codes_def option_values_def needs_extra_options_def elems_def dict_get_def
      is_asil_value_def nonempty_str_def)

section \<open>The extensions\<close>

text \<open>
  C6. After loading, \<open>extensions\<close> is a list whose entries are strings, none of them empty
  and no two of them equal.
\<close>

theorem extensions_identifiers:
  "map_of (globals (load abspath s)) ''extensions'' = Some extensions \<and>
   is_list extensions \<and>
   list_all nonempty_str (elems extensions) \<and>
   distinct (elems extensions)"
  by (simp add: load_binds extensions_def is_list_def elems_def nonempty_str_def)

section \<open>Loading twice\<close>

text \<open>
  C7. Whatever the interpreter state and the working directory of two loads are, both bind
  every configuration name, and to the same value. This holds in particular for a second
  load that starts in the state the first one left.
\<close>

theorem load_deterministic:
  "map (map_of (globals (load abspath1 s1))) config_names =
     map (map_of (globals (load abspath2 s2))) config_names \<and>
   map (map_of (globals (load abspath2 (load abspath1 s1)))) config_names =
     map (map_of (globals (load abspath1 s1))) config_names \<and>
   list_all (\<lambda>n. map_of (globals (load abspath1 s1)) n \<noteq> None) config_names"
proof -
  have "list_all (\<lambda>n. map_of (globals (load abspath1 s1)) n \<noteq> None) config_names"
    by (simp add: globals_load config_names_def)
  then show ?thesis
    by (simp only: load_config_names simp_thms)
qed

section \<open>What loading changes outside the module\<close>




section \<open>Colours and naming conventions\<close>

text \<open>
  C9. After loading, the colour of every need type (its \<open>color\<close> entry) and the colour of every extra link
  (its \<open>style\<close> entry) is a string made of \<open>#\<close> and exactly six hexadecimal digits.
\<close>

theorem colors_are_hex:
  "map_of (globals (load abspath s)) ''needs_types'' = Some needs_types \<and>
   map_of (globals (load abspath s)) ''need_extra_links'' = Some need_extra_links \<and>
   list_all (\<lambda>r. is_hex_color (type_color r)) (elems needs_types) \<and>
   list_all (\<lambda>r. is_hex_color (link_color r)) (elems need_extra_links) \<and>
   length (elems needs_types) = 4 \<and> length (elems need_extra_links) = 1"
  by (simp add: load_binds needs_types_def need_extra_links_def elems_def type_color_def link_color_def
      dict_get_def is_hex_color_def is_hex_digit_def)

text \<open>
  C10. After loading, the values of the option \<open>sreqtype\<close> are exactly the directive keywords of the need
  types titled Safety Requirement and DFA Requirement, namely SR and DFA; and the prefix
  of every need type ends with an underscore.
\<close>

theorem sreqtype_matches_directives:
  "map_of (globals (load abspath s)) ''needs_types'' = Some needs_types \<and>
   map_of (globals (load abspath s)) ''needs_extra_options'' = Some needs_extra_options \<and>
   map_option (\<lambda>vs. set (map Some vs)) (option_values ''sreqtype'' needs_extra_options) =
     Some (set (directives_titled [''Safety Requirement'', ''DFA Requirement''] needs_types)) \<and>
   set (directives_titled [''Safety Requirement'', ''DFA Requirement''] needs_types) =
     {Some (Str ''SR''), Some (Str ''DFA'')} \<and>
   list_all (\<lambda>r. ends_with_underscore (dict_get r ''prefix'')) (elems needs_types)"
  by (simp add: load_binds option_values_def needs_extra_options_def needs_types_def elems_def
      dict_get_def directives_titled_def ends_with_underscore_def)

end
